theory Spec2Isabelle
  imports Main "HOL-Library.Sublist" "HOL-Library.List_Lexorder"
begin

section \<open>Python strings\<close>

text \<open>
  A Python \<open>str\<close> is a sequence of Unicode code points. The page templates of
  \<open>sync_examples.py\<close> hold the code point U+2002 (EN SPACE), and \<open>str.strip\<close> and
  \<open>str.splitlines\<close> look at code points beyond one byte, so a string is modelled as a
  list of code points (\<open>nat\<close>). \<open>str ''abc''\<close> is the Python literal \<open>'abc'\<close>, and
  \<open>ord CHR ''a''\<close> the code point of a character. Lists of code points are ordered
  lexicographically, as Python orders strings.
\<close>

type_synonym pystr = "nat list"

abbreviation ord :: "char \<Rightarrow> nat" where
  "ord c \<equiv> of_char c"

abbreviation str :: "string \<Rightarrow> pystr" where
  "str s \<equiv> map of_char s"

text \<open>\<open>str.isspace\<close> on one code point: the characters \<open>str.strip()\<close> removes.\<close>

definition isspace :: "nat \<Rightarrow> bool" where
  "isspace c = (c \<in> {9, 10, 11, 12, 13, 28, 29, 30, 31, 32, 133, 160, 5760,
                      8232, 8233, 8239, 8287, 12288} \<or> (8192 \<le> c \<and> c \<le> 8202))"

text \<open>\<open>s.strip(chars)\<close>: leading and trailing characters of the given class removed.\<close>

definition strip_with :: "(nat \<Rightarrow> bool) \<Rightarrow> pystr \<Rightarrow> pystr" where
  "strip_with P s = rev (dropWhile P (rev (dropWhile P s)))"

definition strip :: "pystr \<Rightarrow> pystr" where
  "strip s = strip_with isspace s"

text \<open>\<open>s.split(c)\<close> for a separator of one character: never the empty list.\<close>

fun split_char :: "nat \<Rightarrow> pystr \<Rightarrow> pystr list" where
  "split_char c [] = [[]]"
| "split_char c (x # xs) =
     (if x = c then [] # split_char c xs
      else (case split_char c xs of [] \<Rightarrow> [[x]] | l # ls \<Rightarrow> (x # l) # ls))"

text \<open>
  \<open>s.split(sep, maxsplit=1)\<close> for a non-empty \<open>sep\<close>: the text before the first
  occurrence of \<open>sep\<close> and the text after it, or \<open>[s]\<close> when \<open>sep\<close> does not occur.
\<close>

fun split_maxsplit1 :: "pystr \<Rightarrow> pystr \<Rightarrow> pystr list" where
  "split_maxsplit1 sep [] = [[]]"
| "split_maxsplit1 sep (x # xs) =
     (if prefix sep (x # xs) then [[], drop (length sep) (x # xs)]
      else (case split_maxsplit1 sep xs of [] \<Rightarrow> [] | h # rest \<Rightarrow> (x # h) # rest))"

text \<open>
  \<open>s.splitlines()\<close>: lines without their terminators. A line ends at \<open>\n\<close>, \<open>\r\<close>,
  \<open>\r\n\<close>, \<open>\v\<close>, \<open>\f\<close>, \<open>\x1c\<close>, \<open>\x1d\<close>, \<open>\x1e\<close>, \<open>\x85\<close>, U+2028 or U+2029; text
  after the last terminator is a line only when it is not empty.
\<close>

fun splitlines_from :: "pystr \<Rightarrow> pystr \<Rightarrow> pystr list" where
  "splitlines_from cur [] = (if cur = [] then [] else [cur])"
| "splitlines_from cur (c # cs) =
     (if c = 13 then
        (case cs of
           [] \<Rightarrow> [cur]
         | d # ds \<Rightarrow> if d = 10 then cur # splitlines_from [] ds
                     else cur # splitlines_from [] cs)
      else if c \<in> {10, 11, 12, 28, 29, 30, 133, 8232, 8233} then cur # splitlines_from [] cs
      else splitlines_from (cur @ [c]) cs)"

definition splitlines :: "pystr \<Rightarrow> pystr list" where
  "splitlines s = splitlines_from [] s"

text \<open>\<open>sep.join(xs)\<close>.\<close>

fun join :: "pystr \<Rightarrow> pystr list \<Rightarrow> pystr" where
  "join sep [] = []"
| "join sep [x] = x"
| "join sep (x # y # ys) = x @ sep @ join sep (y # ys)"

text \<open>\<open>s.replace(a, b)\<close> for single characters \<open>a\<close> and \<open>b\<close>.\<close>

definition replace_char :: "nat \<Rightarrow> nat \<Rightarrow> pystr \<Rightarrow> pystr" where
  "replace_char a b s = map (\<lambda>c. if c = a then b else c) s"

text \<open>\<open>s.rfind(c)\<close>: the index of the last \<open>c\<close> in \<open>s\<close>, or \<open>-1\<close>.\<close>

definition rfind :: "nat \<Rightarrow> pystr \<Rightarrow> int" where
  "rfind c s =
     (if c \<in> set s then int (length s) - 1 - int (length (takeWhile (\<lambda>x. x \<noteq> c) (rev s)))
      else - 1)"

text \<open>
  \<open>os.path.splitext\<close> (POSIX): the extension starts at the last dot of the last path
  component, unless only dots stand between the component's start and that dot.
\<close>

definition splitext :: "pystr \<Rightarrow> pystr \<times> pystr" where
  "splitext p =
     (let sepIndex = rfind (ord CHR ''/'') p;
          dotIndex = rfind (ord CHR ''.'') p
      in if dotIndex > sepIndex \<and>
            list_ex (\<lambda>c. c \<noteq> ord CHR ''.'')
              (take (nat (dotIndex - (sepIndex + 1))) (drop (nat (sepIndex + 1)) p))
         then (take (nat dotIndex) p, drop (nat dotIndex) p)
         else (p, []))"

section \<open>Errors and indexing\<close>

datatype py_error = IndexError | OSError

text \<open>\<open>xs[i]\<close>: a negative index counts from the end; out of range raises.\<close>

definition item :: "'a list \<Rightarrow> int \<Rightarrow> py_error + 'a" where
  "item xs i =
     (let j = (if i < 0 then i + int (length xs) else i)
      in if j < 0 \<or> int (length xs) \<le> j then Inl IndexError else Inr (xs ! nat j))"

section \<open>The Example class\<close>

record Example =
  name :: pystr
  slug :: pystr
  filename :: pystr
  title :: pystr
  subtitle :: pystr
  description :: pystr
  "keywords" :: "pystr list"
  code :: pystr

text \<open>
  \<open>Example.__init__\<close>. \<open>description.split('\n')\<close> is never empty, so its element 0
  is the head of the list.
\<close>

definition Example_init :: "pystr \<Rightarrow> pystr \<Rightarrow> pystr \<Rightarrow> pystr list \<Rightarrow> pystr \<Rightarrow> Example" where
  "Example_init fname ttl descr kws cde =
     (let nm = fst (splitext fname) in
      \<lparr> name = nm,
        slug = replace_char (ord CHR ''_'') (ord CHR ''-'') nm,
        filename = fname,
        title = ttl,
        subtitle = strip (hd (split_char 10 descr)),
        description = descr,
        keywords = kws,
        code = cde \<rparr>)"

text \<open>The link of one keyword in the footer of \<open>to_md\<close>.\<close>

definition keyword_tag :: "pystr \<Rightarrow> pystr" where
  "keyword_tag k =
     str ''<a href={useBaseUrl('docs/examples/examples-tags#'' @ k @ str ''')}>'' @ k @ str ''</a>''"

text \<open>
  The three templates of \<open>Example.to_md\<close>. The separator of the keyword links is a
  space and U+2002, which also follows \<open>**Tags**:\<close>.
\<close>

definition to_md_header :: "Example \<Rightarrow> pystr" where
  "to_md_header e =
     (if keywords e \<noteq> [] then
        str ''---\<newline>title: '' @ title e @ str ''\<newline>keywords:\<newline>''
        @ join [10] (map (\<lambda>x. str ''  - '' @ x) (keywords e))
        @ str ''\<newline>---\<newline>\<newline>import useBaseUrl from '@docusaurus/useBaseUrl';\<newline>\<newline>        ''
      else
        str ''---\<newline>title: '' @ title e @ str ''\<newline>---\<newline>        '')"

definition to_md_footer :: "Example \<Rightarrow> pystr" where
  "to_md_footer e =
     (if keywords e \<noteq> [] then
        str ''\<newline>\<newline>**Tags**: '' @ [8194]
        @ join [32, 8194] (map keyword_tag (keywords e))
        @ str ''\<newline>\<newline>            ''
      else [])"

definition to_md_body :: "Example \<Rightarrow> pystr" where
  "to_md_body e =
     str ''\<newline>\<newline>'' @ description e
     @ str ''\<newline>\<newline><div className='cover' style={{ backgroundImage: 'url(' + require('./assets/''
     @ slug e
     @ str ''.png').default + ')' }} />\<newline>\<newline>```py\<newline>''
     @ code e
     @ str ''\<newline>```\<newline>        ''"

definition to_md :: "Example \<Rightarrow> pystr" where
  "to_md e = to_md_header e @ to_md_body e @ to_md_footer e"

section \<open>The parser\<close>

text \<open>
  The files of the examples directory, by the name handed to \<open>read_file\<close> after
  \<open>os.path.join(example_dir, filename)\<close>; a file that cannot be read raises. The
  empty name joins to the directory itself, which \<open>open\<close> refuses, so the directory of a
  real run has no text under the empty name.
\<close>

type_synonym files = "pystr \<Rightarrow> pystr option"

definition read_file :: "files \<Rightarrow> pystr \<Rightarrow> py_error + pystr" where
  "read_file fs p = (case fs p of None \<Rightarrow> Inl OSError | Some txt \<Rightarrow> Inr txt)"

definition strip_comment :: "pystr \<Rightarrow> pystr" where
  "strip_comment line = strip_with (\<lambda>c. c \<in> set (str '' #'')) line"

definition get_keywords_if_available :: "pystr \<Rightarrow> pystr list" where
  "get_keywords_if_available line =
     (let kws = map strip (split_char (ord CHR '','') line);
          period_in_line = (ord CHR ''.'' \<in> set line);
          spaces_in_keywords = list_ex (\<lambda>x. ord CHR '' '' \<in> set x) kws
      in if period_in_line \<or> spaces_in_keywords then [] else kws)"

definition load_example :: "files \<Rightarrow> pystr \<Rightarrow> py_error + Example" where
  "load_example fs fname =
     (case read_file fs fname of
        Inl err \<Rightarrow> Inl err
      | Inr contents \<Rightarrow>
          let parts = split_maxsplit1 (str ''---'') contents in
          (case item parts 0 of
             Inl err \<Rightarrow> Inl err
           | Inr part0 \<Rightarrow>
          (case item parts 1 of
             Inl err \<Rightarrow> Inl err
           | Inr part1 \<Rightarrow>
               let header = splitlines (strip part0); cde = strip part1 in
               (case item header 0 of
                  Inl err \<Rightarrow> Inl err
                | Inr header0 \<Rightarrow>
                    let ttl = strip_comment header0;
                        descr = map strip_comment (drop 1 header)
                    in (case item descr (- 2) of
                          Inl err \<Rightarrow> Inl err
                        | Inr tag_line \<Rightarrow>
                            Inr (Example_init fname ttl (join [10] descr)
                                   (get_keywords_if_available tag_line) cde))))))"

section \<open>The index pages\<close>

definition toc_entry :: "Example \<Rightarrow> pystr" where
  "toc_entry e =
     str ''- <a href={useBaseUrl('docs/examples/'' @ slug e @ str ''')}>'' @ title e
     @ str ''</a>: '' @ subtitle e"

definition make_toc :: "Example list \<Rightarrow> pystr" where
  "make_toc examples =
     str ''---\<newline>title: All Examples\<newline>slug: /examples/all\<newline>---\<newline>\<newline>import useBaseUrl from '@docusaurus/useBaseUrl';\<newline>\<newline>''
     @ join [10, 10] (map toc_entry examples)"

definition make_gallery_thumbnail :: "Example \<Rightarrow> pystr" where
  "make_gallery_thumbnail e =
     str ''<a class='thumbnail' href={useBaseUrl('docs/examples/'' @ slug e
     @ str ''')}><div style={{backgroundImage:'url(' + require('./assets/'' @ slug e
     @ str ''.png').default + ')'}}></div>'' @ title e @ str ''</a>''"

definition make_gallery :: "Example list \<Rightarrow> pystr" where
  "make_gallery examples =
     str ''---\<newline>title: Gallery\<newline>slug: /examples\<newline>---\<newline>\<newline>import useBaseUrl from '@docusaurus/useBaseUrl';\<newline>''
     @ [10] @ join [10, 10] (map make_gallery_thumbnail examples)"

definition example_link :: "Example \<Rightarrow> pystr" where
  "example_link e =
     str ''<a href={useBaseUrl('docs/examples/'' @ slug e @ str ''')}>'' @ title e @ str ''</a>''"

definition make_keyword_group :: "pystr \<Rightarrow> Example list \<Rightarrow> pystr" where
  "make_keyword_group keyword examples =
     (str ''### '' @ keyword @ [10]) @ join [32, 8194] (map example_link examples) @ [10]"

text \<open>
  \<open>keywords_dict[k].append(e)\<close> on a \<open>defaultdict(list)\<close>: the dictionary as the list
  of its items in insertion order.
\<close>

fun dict_append :: "(pystr \<times> Example list) list \<Rightarrow> pystr \<Rightarrow> Example \<Rightarrow> (pystr \<times> Example list) list" where
  "dict_append [] k e = [(k, [e])]"
| "dict_append ((k', es) # d) k e =
     (if k' = k then (k', es @ [e]) # d else (k', es) # dict_append d k e)"

text \<open>
  \<open>index_examples\<close>: the two nested loops, then \<open>sorted\<close> on the items. The keys of a
  dictionary are distinct, so the comparison of two items is decided by their keys.
\<close>

definition index_examples :: "Example list \<Rightarrow> (pystr \<times> Example list) list" where
  "index_examples examples =
     sort_key fst
       (foldl (\<lambda>d e. foldl (\<lambda>d' k. dict_append d' k e) d (keywords e)) [] examples)"

definition make_examples_by_keyword :: "Example list \<Rightarrow> pystr" where
  "make_examples_by_keyword examples =
     str ''---\<newline>title: Tags\<newline>---\<newline>\<newline>import useBaseUrl from '@docusaurus/useBaseUrl';\<newline>''
     @ [10] @ join [10, 10] (map (\<lambda>(k, e). make_keyword_group k e) (index_examples examples))"

section \<open>The manifest\<close>

text \<open>
  The first two statements of \<open>main\<close>: the file names of \<open>tour.conf\<close>, from the lines
  \<open>read_lines\<close> returns, and the examples loaded in that order; the first file that
  fails stops the run.
\<close>

definition main_filenames :: "pystr list \<Rightarrow> pystr list" where
  "main_filenames lines =
     map strip (filter (\<lambda>line. \<not> prefix (str ''#'') (strip line)) lines)"

fun main_examples :: "files \<Rightarrow> pystr list \<Rightarrow> py_error + Example list" where
  "main_examples fs [] = Inr []"
| "main_examples fs (f # rest) =
     (case load_example fs f of
        Inl err \<Rightarrow> Inl err
      | Inr e \<Rightarrow> (case main_examples fs rest of Inl err \<Rightarrow> Inl err | Inr es \<Rightarrow> Inr (e # es)))"

text \<open>
  \<open>f.readlines()\<close> on a file opened as text: the lines, each with its line feed, and the
  text after the last line feed when it is not empty.
\<close>

fun readlines_from :: "pystr \<Rightarrow> pystr \<Rightarrow> pystr list" where
  "readlines_from cur [] = (if cur = [] then [] else [cur])"
| "readlines_from cur (c # cs) =
     (if c = 10 then (cur @ [10]) # readlines_from [] cs else readlines_from (cur @ [c]) cs)"

definition read_lines :: "files \<Rightarrow> pystr \<Rightarrow> py_error + pystr list" where
  "read_lines fs p =
     (case read_file fs p of Inl err \<Rightarrow> Inl err | Inr txt \<Rightarrow> Inr (readlines_from [] txt))"

text \<open>\<open>os.path.join\<close> (POSIX) of two parts.\<close>

definition path_join :: "pystr \<Rightarrow> pystr \<Rightarrow> pystr" where
  "path_join a b =
     (if prefix (str ''/'') b then b
      else if a = [] \<or> suffix (str ''/'') a then a @ b
      else a @ str ''/'' @ b)"

text \<open>
  What a run does to the outside, in the order it does it: the files \<open>write_file\<close>
  writes, each with its text, and the lines \<open>print\<close> writes. \<open>write_file\<close> raises when
  the file cannot be opened for writing.
\<close>

datatype effect = Wrote pystr pystr | Printed pystr

definition write_file :: "(pystr \<Rightarrow> bool) \<Rightarrow> pystr \<Rightarrow> pystr \<Rightarrow> py_error + effect" where
  "write_file writable p txt = (if writable p then Inr (Wrote p txt) else Inl OSError)"

text \<open>The end of the loop of \<open>main\<close>: the alert for a thumbnail that is missing.\<close>

definition thumbnail_alert :: "(pystr \<Rightarrow> bool) \<Rightarrow> pystr \<Rightarrow> Example \<Rightarrow> effect list" where
  "thumbnail_alert path_exists thumbnail_dir e =
     (if \<not> path_exists (path_join thumbnail_dir (slug e @ str ''.png''))
      then [Printed (str ''*** ALERT: no thumbnail found for example '' @ [34] @ slug e @ [34])]
      else [])"

text \<open>The loop of \<open>main\<close> over the examples.\<close>

fun write_pages ::
  "(pystr \<Rightarrow> bool) \<Rightarrow> (pystr \<Rightarrow> bool) \<Rightarrow> pystr \<Rightarrow> pystr \<Rightarrow> Example list \<Rightarrow> py_error + effect list" where
  "write_pages writable path_exists example_md_dir thumbnail_dir [] = Inr []"
| "write_pages writable path_exists example_md_dir thumbnail_dir (e # es) =
     (case write_file writable (path_join example_md_dir (slug e @ str ''.md'')) (to_md e) of
        Inl err \<Rightarrow> Inl err
      | Inr wrote \<Rightarrow>
          (case write_pages writable path_exists example_md_dir thumbnail_dir es of
             Inl err \<Rightarrow> Inl err
           | Inr rest \<Rightarrow> Inr (wrote # thumbnail_alert path_exists thumbnail_dir e @ rest)))"

text \<open>
  \<open>main\<close>. \<open>website_dir\<close> is the directory the module computes from its own path;
  \<open>dumps\<close> is \<open>json.dumps\<close> on the list of the records \<open>{slug: s}\<close>, as a function of the
  slugs; \<open>path_exists\<close> is \<open>os.path.exists\<close>. The result is the error of a run that
  raises, or what a run that completes has written and printed.
\<close>

definition main ::
  "pystr \<Rightarrow> (pystr list \<Rightarrow> pystr) \<Rightarrow> files \<Rightarrow> (pystr \<Rightarrow> bool) \<Rightarrow> (pystr \<Rightarrow> bool) \<Rightarrow> py_error + effect list" where
  "main website_dir dumps fs path_exists writable =
     (case read_lines fs (str ''tour.conf'') of
        Inl err \<Rightarrow> Inl err
      | Inr lines \<Rightarrow>
          (case main_examples fs (main_filenames lines) of
             Inl err \<Rightarrow> Inl err
           | Inr examples \<Rightarrow>
               let example_md_dir = path_join (path_join website_dir (str ''docs'')) (str ''examples'');
                   thumbnail_dir = path_join example_md_dir (str ''assets'')
               in (case write_pages writable path_exists example_md_dir thumbnail_dir examples of
                     Inl err \<Rightarrow> Inl err
                   | Inr pages \<Rightarrow>
                       let example_items =
                             str ''index'' # str ''all'' # str ''examples-tags'' # map slug examples
                       in (case write_file writable (path_join website_dir (str ''examples.js''))
                                  (str ''module.exports='' @ dumps example_items) of
                             Inl err \<Rightarrow> Inl err
                           | Inr w1 \<Rightarrow>
                       (case write_file writable (path_join example_md_dir (str ''index.md''))
                               (make_gallery examples) of
                          Inl err \<Rightarrow> Inl err
                        | Inr w2 \<Rightarrow>
                       (case write_file writable (path_join example_md_dir (str ''all.md''))
                               (make_toc examples) of
                          Inl err \<Rightarrow> Inl err
                        | Inr w3 \<Rightarrow>
                       (case write_file writable (path_join example_md_dir (str ''examples-tags.md''))
                               (make_examples_by_keyword examples) of
                          Inl err \<Rightarrow> Inl err
                        | Inr w4 \<Rightarrow> Inr (pages @ [w1, w2, w3, w4]))))))))"

section \<open>Notions used in the statements\<close>

text \<open>
  \<open>splits_at_first sep s h c\<close>: \<open>s\<close> is \<open>h\<close>, then \<open>sep\<close>, then \<open>c\<close>, and no occurrence of
  \<open>sep\<close> in \<open>s\<close> starts before the one that follows \<open>h\<close>.
\<close>

definition splits_at_first :: "pystr \<Rightarrow> pystr \<Rightarrow> pystr \<Rightarrow> pystr \<Rightarrow> bool" where
  "splits_at_first sep s h c = (s = h @ sep @ c \<and> \<not> sublist sep (h @ butlast sep))"

text \<open>
  The split the specification describes, which is not the parser's: at the first line
  that consists of three or more hyphens and of nothing else, into the lines before it
  and the lines after it.
\<close>

definition is_separator_line :: "pystr \<Rightarrow> bool" where
  "is_separator_line l = (3 \<le> length l \<and> list_all (\<lambda>c. c = ord CHR ''-'') l)"

definition split_at_separator_line :: "pystr \<Rightarrow> (pystr list \<times> pystr list) option" where
  "split_at_separator_line txt =
     (let ls = split_char 10 txt in
      if list_ex is_separator_line ls
      then Some (takeWhile (\<lambda>l. \<not> is_separator_line l) ls,
                 drop 1 (dropWhile (\<lambda>l. \<not> is_separator_line l) ls))
      else None)"






section \<open>Sample inputs\<close>

text \<open>The head of \<open>examples/flex.py\<close> with the last line of its body, and its parse.\<close>

definition flex_text :: pystr where
  "flex_text = str ''# Flex\<newline># No description available.\<newline># ---\<newline>import random\<newline>\<newline>page.sync()\<newline>''"

definition flex_example :: Example where
  "flex_example =
     Example_init (str ''flex.py'') (str ''Flex'') (str ''No description available.\<newline>'') []
       (str ''import random\<newline>\<newline>page.sync()'')"

text \<open>A directory that holds one file.\<close>

definition files_of :: "pystr \<Rightarrow> pystr \<Rightarrow> files" where
  "files_of f txt = (\<lambda>p. if p = f then Some txt else None)"

text \<open>A file whose header line before the last one is blank.\<close>

definition blank_tag_text :: pystr where
  "blank_tag_text = str ''# T\<newline># d\<newline>#\<newline># ---\<newline>code''"

text \<open>An example with two keywords.\<close>

definition gauge_example :: Example where
  "gauge_example =
     Example_init (str ''wide_gauge.py'') (str ''Gauge'') (str ''A gauge.\<newline>stat, gauge\<newline>'')
       [str ''stat'', str ''gauge''] (str ''x = 1'')"



text \<open>\<open>json.dumps\<close> on records whose slugs need no escape.\<close>

definition dumps_plain :: "pystr list \<Rightarrow> pystr" where
  "dumps_plain slugs =
     str ''['' @ join (str '', '') (map (\<lambda>s. str ''{'' @ [34] @ str ''slug'' @ [34] @ str '': '' @ [34] @ s @ [34] @ str ''}'') slugs) @ str '']''"

text \<open>An examples directory with a manifest of one comment line and one file name.\<close>

definition tour_files :: files where
  "tour_files =
     (\<lambda>p. if p = str ''tour.conf'' then Some (str ''# the tour\<newline>flex.py\<newline>'')
          else if p = str ''flex.py'' then Some flex_text else None)"

text \<open>The same directory with a manifest that ends with a blank line.\<close>

definition blank_tour_files :: files where
  "blank_tour_files =
     (\<lambda>p. if p = str ''tour.conf'' then Some (str ''flex.py\<newline>\<newline>'')
          else if p = str ''flex.py'' then Some flex_text else None)"

text \<open>The definitions a concrete input is evaluated with.\<close>

lemmas py_eval =
  strip_def strip_with_def isspace_def splitlines_def strip_comment_def
  get_keywords_if_available_def load_example_def read_file_def files_of_def item_def
  Example_init_def splitext_def rfind_def replace_char_def Let_def
  splits_at_first_def sublist_code
  split_at_separator_line_def is_separator_line_def

lemmas page_eval = to_md_def to_md_header_def to_md_footer_def to_md_body_def keyword_tag_def

section \<open>Splitting at the first occurrence\<close>

lemma split_maxsplit1_absent:
  "\<not> sublist sep s \<Longrightarrow> split_maxsplit1 sep s = [s]"
proof (induction s)
  case Nil
  then show ?case by simp
next
  case (Cons x xs)
  then have "\<not> prefix sep (x # xs)" and "\<not> sublist sep xs"
    by (auto simp: sublist_Cons_right)
  with Cons.IH show ?case by simp
qed

lemma prefix_in_front:
  assumes "prefix sep (h @ r)" and "length sep \<le> length h"
  shows "prefix sep h"
proof -
  from assms(1) consider "prefix sep h" | us where "sep = h @ us"
    by (auto simp: prefix_append)
  then show ?thesis
  proof cases
    case 1
    then show ?thesis .
  next
    case 2
    with assms(2) have "us = []" by simp
    with 2 show ?thesis by simp
  qed
qed

lemma split_maxsplit1_first:
  assumes "sep \<noteq> []"
  shows "\<not> sublist sep (h @ butlast sep) \<Longrightarrow> split_maxsplit1 sep (h @ sep @ t) = [h, t]"
proof (induction h)
  case Nil
  from assms obtain x xs where sep: "sep = x # xs" by (cases sep) auto
  then show ?case by simp
next
  case (Cons x h)
  have "\<not> prefix sep ((x # h) @ sep @ t)"
  proof
    assume p: "prefix sep ((x # h) @ sep @ t)"
    have "(x # h) @ sep @ t = ((x # h) @ butlast sep) @ (last sep # t)"
      using assms by (simp add: append_butlast_last_id[symmetric] del: append_butlast_last_id)
    moreover have "length sep \<le> length ((x # h) @ butlast sep)"
      using assms by (cases sep) auto
    ultimately have "prefix sep ((x # h) @ butlast sep)"
      using p prefix_in_front by metis
    with Cons.prems show False by auto
  qed
  moreover have "\<not> sublist sep (h @ butlast sep)"
    using Cons.prems by (auto simp: sublist_Cons_right)
  ultimately show ?case using Cons.IH by simp
qed

lemma split_maxsplit1_found:
  assumes "sep \<noteq> []"
  shows "sublist sep s \<Longrightarrow>
    \<exists>h t. split_maxsplit1 sep s = [h, t] \<and> s = h @ sep @ t \<and> \<not> sublist sep (h @ butlast sep)"
proof (induction s)
  case Nil
  with assms show ?case by simp
next
  case (Cons x xs)
  show ?case
  proof (cases "prefix sep (x # xs)")
    case True
    then obtain t where t: "x # xs = sep @ t" by (auto simp: prefix_def)
    have "\<not> sublist sep (butlast sep)"
      using assms
      by (metis sublist_length_le length_butlast diff_less length_greater_0_conv less_one not_le)
    moreover have "split_maxsplit1 sep (x # xs) = [[], t]"
    proof -
      have "drop (length sep) (x # xs) = t" by (simp only: t) simp
      with True show ?thesis by simp
    qed
    ultimately have "split_maxsplit1 sep (x # xs) = [[], t] \<and> x # xs = [] @ sep @ t
        \<and> \<not> sublist sep ([] @ butlast sep)"
      using t by simp
    then show ?thesis by blast
  next
    case False
    with Cons.prems have "sublist sep xs" by (simp add: sublist_Cons_right)
    from Cons.IH[OF this] obtain h t where
      ht: "split_maxsplit1 sep xs = [h, t]" "xs = h @ sep @ t" "\<not> sublist sep (h @ butlast sep)"
      by blast
    have "\<not> prefix sep ((x # h) @ butlast sep)"
    proof
      assume "prefix sep ((x # h) @ butlast sep)"
      then have "prefix sep (((x # h) @ butlast sep) @ (last sep # t))"
        using prefix_prefix by blast
      moreover have "((x # h) @ butlast sep) @ (last sep # t) = x # xs"
        using assms ht(2) by simp
      ultimately show False using False by simp
    qed
    with ht(3) have "\<not> sublist sep ((x # h) @ butlast sep)"
      by (simp add: sublist_Cons_right)
    with False ht show ?thesis by (rule_tac x="x # h" in exI) auto
  qed
qed

lemma first_occurrence_least:
  assumes "sep \<noteq> []" and "\<not> sublist sep (h @ butlast sep)" and "h @ sep @ c = h' @ sep @ c'"
  shows "length h \<le> length h'"
proof (rule ccontr)
  assume "\<not> length h \<le> length h'"
  then have len: "length (h' @ sep) \<le> length (h @ butlast sep)" by simp
  have "h @ sep @ c = (h @ butlast sep) @ (last sep # c)" using assms(1) by simp
  then have "prefix (h @ butlast sep) (h @ sep @ c)" by (metis prefixI)
  moreover have "prefix (h' @ sep) (h @ sep @ c)" using assms(3) by (metis append.assoc prefixI)
  ultimately have "prefix (h' @ sep) (h @ butlast sep)" using len prefix_length_prefix by blast
  then have "sublist sep (h @ butlast sep)" by (auto simp: prefix_def sublist_def)
  with assms(2) show False by simp
qed

lemma splits_at_first_least:
  assumes "sep \<noteq> []" and "splits_at_first sep s h c" and "s = h' @ sep @ c'"
  shows "length h \<le> length h'"
  using assms first_occurrence_least[of sep h c h' c'] by (simp add: splits_at_first_def)

lemma splits_at_first_split:
  assumes "sep \<noteq> []" and "splits_at_first sep s h c"
  shows "split_maxsplit1 sep s = [h, c]"
  using assms split_maxsplit1_first[of sep h c] by (simp add: splits_at_first_def)

lemma splits_at_first_exists:
  assumes "sep \<noteq> []" and "sublist sep s"
  shows "\<exists>h c. splits_at_first sep s h c"
  using split_maxsplit1_found[OF assms] by (auto simp: splits_at_first_def)

lemma splits_at_first_sublist: "splits_at_first sep s h c \<Longrightarrow> sublist sep s"
  by (auto simp: splits_at_first_def)

section \<open>The steps of the parser\<close>

lemma item_0: "item xs 0 = (if xs = [] then Inl IndexError else Inr (xs ! 0))"
  by (simp add: item_def)

lemma item_1: "item xs 1 = (if length xs < 2 then Inl IndexError else Inr (xs ! 1))"
  by (auto simp: item_def)

lemma item_neg2:
  "item xs (- 2) = (if length xs < 2 then Inl IndexError else Inr (xs ! (length xs - 2)))"
proof (cases "length xs < 2")
  case True
  then show ?thesis by (simp add: item_def)
next
  case False
  then have "nat (- 2 + int (length xs)) = length xs - 2" by linarith
  with False show ?thesis by (simp add: item_def)
qed

lemma load_example_absent:
  assumes "fs f = Some contents" and "\<not> sublist (str ''---'') contents"
  shows "load_example fs f = Inl IndexError"
  using assms(1) split_maxsplit1_absent[OF assms(2)]
  by (simp add: load_example_def read_file_def item_0 item_1)

lemma tag_line_index:
  assumes "3 \<le> length header"
  shows "map f (drop 1 header) ! (length (map f (drop 1 header)) - 2)
       = f (header ! (length header - 2))"
proof -
  have "length header - 1 - 2 < length (drop 1 header)" using assms by simp
  moreover have "1 + (length header - 1 - 2) = length header - 2" using assms by simp
  ultimately show ?thesis by (simp del: One_nat_def)
qed

lemma load_example_present:
  assumes "fs f = Some contents"
    and "splits_at_first (str ''---'') contents h c"
  shows "load_example fs f =
     (let header = splitlines (strip h) in
      if length header < 3 then Inl IndexError
      else Inr (Example_init f (strip_comment (header ! 0))
                  (join [10] (map strip_comment (drop 1 header)))
                  (get_keywords_if_available (strip_comment (header ! (length header - 2))))
                  (strip c)))"
proof -
  have parts: "split_maxsplit1 (str ''---'') contents = [h, c]"
    using splits_at_first_split[of "str ''---''" contents h c] assms(2) by simp
  show ?thesis
  proof (cases "length (splitlines (strip h)) < 3")
    case True
    then have "splitlines (strip h) = []
        \<or> length (map strip_comment (drop 1 (splitlines (strip h)))) < 2"
      by auto
    then show ?thesis
      using assms(1) parts True
      by (auto simp: load_example_def read_file_def item_0 item_1 item_neg2 Let_def
          simp del: One_nat_def length_map length_drop)
  next
    case False
    then have ne: "splitlines (strip h) \<noteq> []"
      and len: "\<not> length (map strip_comment (drop 1 (splitlines (strip h)))) < 2"
      by auto
    from False have "3 \<le> length (splitlines (strip h))" by simp
    note tag = tag_line_index[OF this, of strip_comment]
    show ?thesis
      using assms(1) parts False ne len
      by (simp add: load_example_def read_file_def item_0 item_1 item_neg2 Let_def tag
          del: One_nat_def length_map length_drop)
  qed
qed

lemma load_example_flex:
  "load_example (files_of (str ''flex.py'') flex_text) (str ''flex.py'') = Inr flex_example"
  by (simp add: py_eval flex_text_def flex_example_def)

lemma flex_splits:
  "splits_at_first (str ''---'') flex_text
     (str ''# Flex\<newline># No description available.\<newline># '')
     (str ''\<newline>import random\<newline>\<newline>page.sync()\<newline>'')"
  by (simp add: py_eval flex_text_def)

section \<open>Where the parser splits a file\<close>

text \<open>
  C1, as amended. The claim has the header and the code part at the first line made of
  three or more hyphens. The parser splits at the first place where the three
  characters \<open>---\<close> stand, in the middle of a line or not: when \<open>load_example\<close> returns an
  example, the file is a header part \<open>h\<close>, then \<open>---\<close>, then a code part \<open>c\<close>, no \<open>---\<close>
  starts earlier in the file, the title and the description are read from the lines of
  the trimmed \<open>h\<close>, and the code is the trimmed \<open>c\<close>.
\<close>

theorem load_example_splits_at_first_dashes:
  assumes "fs f = Some contents" and "load_example fs f = Inr e"
  shows "\<exists>h c. splits_at_first (str ''---'') contents h c
           \<and> (\<forall>h' c'. contents = h' @ str ''---'' @ c' \<longrightarrow> length h \<le> length h')
           \<and> title e = strip_comment (splitlines (strip h) ! 0)
           \<and> description e = join [10] (map strip_comment (drop 1 (splitlines (strip h))))
           \<and> code e = strip c"
proof -
  have "sublist (str ''---'') contents"
  proof (rule ccontr)
    assume "\<not> sublist (str ''---'') contents"
    with load_example_absent[of fs f contents] assms show False by simp
  qed
  then obtain h c where hc: "splits_at_first (str ''---'') contents h c"
    using splits_at_first_exists[of "str ''---''" contents] by auto
  have least: "\<forall>h' c'. contents = h' @ str ''---'' @ c' \<longrightarrow> length h \<le> length h'"
  proof (intro allI impI)
    fix h' c' assume "contents = h' @ str ''---'' @ c'"
    from splits_at_first_least[OF _ hc this] show "length h \<le> length h'" by simp
  qed
  have "e = Example_init f (strip_comment (splitlines (strip h) ! 0))
                  (join [10] (map strip_comment (drop 1 (splitlines (strip h)))))
                  (get_keywords_if_available
                    (strip_comment (splitlines (strip h) ! (length (splitlines (strip h)) - 2))))
                  (strip c)"
    using assms load_example_present[of fs f contents h c] hc
    by (simp add: Let_def split: if_splits)
  then have "title e = strip_comment (splitlines (strip h) ! 0)
      \<and> description e = join [10] (map strip_comment (drop 1 (splitlines (strip h))))
      \<and> code e = strip c"
    by (simp add: Example_init_def Let_def)
  with hc least show ?thesis by blast
qed

theorem load_example_splits_at_first_dashes_witness:
  "files_of (str ''flex.py'') flex_text (str ''flex.py'') = Some flex_text
   \<and> load_example (files_of (str ''flex.py'') flex_text) (str ''flex.py'') = Inr flex_example
   \<and> (\<exists>h c. splits_at_first (str ''---'') flex_text h c
          \<and> (\<forall>h' c'. flex_text = h' @ str ''---'' @ c' \<longrightarrow> length h \<le> length h')
          \<and> title flex_example = strip_comment (splitlines (strip h) ! 0)
          \<and> description flex_example
              = join [10] (map strip_comment (drop 1 (splitlines (strip h))))
          \<and> code flex_example = strip c)"
proof -
  have h1: "files_of (str ''flex.py'') flex_text (str ''flex.py'') = Some flex_text"
    by (simp add: files_of_def)
  note h2 = load_example_flex
  from load_example_splits_at_first_dashes
         [of "files_of (str ''flex.py'') flex_text" "str ''flex.py''" flex_text flex_example,
          OF h1 h2]
  show ?thesis using h1 h2 by (intro conjI)
qed

text \<open>
  The claim fails where \<open>---\<close> stands inside a line ahead of the separator line: the
  parser cuts the line \<open># a---b\<close> in two, and the code it keeps starts with \<open>b\<close>.
\<close>

theorem split_inside_a_line:
  "split_maxsplit1 (str ''---'')
       (str ''# T\<newline># x\<newline># a---b\<newline># d\<newline>---\<newline>code'')
     = [str ''# T\<newline># x\<newline># a'', str ''b\<newline># d\<newline>---\<newline>code'']
   \<and> load_example
         (files_of (str ''f.py'')
            (str ''# T\<newline># x\<newline># a---b\<newline># d\<newline>---\<newline>code''))
         (str ''f.py'')
       = Inr (Example_init (str ''f.py'') (str ''T'') (str ''x\<newline>a'') [str ''x'']
                (str ''b\<newline># d\<newline>---\<newline>code''))
   \<and> split_at_separator_line
         (str ''# T\<newline># x\<newline># a---b\<newline># d\<newline>---\<newline>code'')
       = Some ([str ''# T'', str ''# x'', str ''# a---b'', str ''# d''], [str ''code''])"
  by (simp add: py_eval)

section \<open>When the parser fails\<close>

text \<open>
  C4, as amended. The claim lets a header of two lines parse. The parser reads the
  description line before the last one (\<open>description[-2]\<close>), so it needs a title line
  and two more lines: for a file that can be read, \<open>load_example\<close> returns an example
  exactly when \<open>---\<close> stands in the file and the trimmed text before its first occurrence
  has three lines or more, and raises IndexError otherwise.
\<close>

theorem load_example_succeeds_iff:
  assumes "fs f = Some contents"
  shows "((\<exists>e. load_example fs f = Inr e) \<longleftrightarrow>
            (\<exists>h c. splits_at_first (str ''---'') contents h c
                   \<and> 3 \<le> length (splitlines (strip h))))
       \<and> (load_example fs f = Inl IndexError \<longleftrightarrow>
            (\<not> sublist (str ''---'') contents
             \<or> (\<exists>h c. splits_at_first (str ''---'') contents h c
                      \<and> length (splitlines (strip h)) < 3)))"
proof (cases "sublist (str ''---'') contents")
  case False
  then have "load_example fs f = Inl IndexError"
    using load_example_absent[of fs f contents] assms by simp
  moreover have "\<not> (\<exists>h c. splits_at_first (str ''---'') contents h c)"
    using False splits_at_first_sublist by blast
  ultimately show ?thesis using False by auto
next
  case True
  then obtain h c where hc: "splits_at_first (str ''---'') contents h c"
    using splits_at_first_exists[of "str ''---''" contents] by auto
  have uniq: "h' = h" if "splits_at_first (str ''---'') contents h' c'" for h' c'
  proof -
    have "split_maxsplit1 (str ''---'') contents = [h', c']"
      using splits_at_first_split[of "str ''---''" contents h' c'] that by simp
    moreover have "split_maxsplit1 (str ''---'') contents = [h, c]"
      using splits_at_first_split[of "str ''---''" contents h c] hc by simp
    ultimately show ?thesis by simp
  qed
  note eq = load_example_present[of fs f contents h c, OF assms hc]
  show ?thesis
  proof (cases "length (splitlines (strip h)) < 3")
    case short: True
    then have "load_example fs f = Inl IndexError" using eq by (simp add: Let_def)
    moreover have "\<not> (\<exists>h' c'. splits_at_first (str ''---'') contents h' c'
                      \<and> 3 \<le> length (splitlines (strip h')))"
      using uniq short by auto
    ultimately show ?thesis using hc short by auto
  next
    case long: False
    then have "\<exists>e. load_example fs f = Inr e" using eq by (simp add: Let_def)
    moreover have "\<not> (\<exists>h' c'. splits_at_first (str ''---'') contents h' c'
                      \<and> length (splitlines (strip h')) < 3)"
      using uniq long by auto
    ultimately show ?thesis using hc long True by auto
  qed
qed

theorem load_example_succeeds_iff_witness:
  "files_of (str ''flex.py'') flex_text (str ''flex.py'') = Some flex_text
   \<and> (\<exists>e. load_example (files_of (str ''flex.py'') flex_text) (str ''flex.py'') = Inr e)
   \<and> (\<exists>h c. splits_at_first (str ''---'') flex_text h c \<and> 3 \<le> length (splitlines (strip h)))
   \<and> load_example (files_of (str ''flex.py'') flex_text) (str ''flex.py'') \<noteq> Inl IndexError"
proof -
  have h1: "files_of (str ''flex.py'') flex_text (str ''flex.py'') = Some flex_text"
    by (simp add: files_of_def)
  have len: "3 \<le> length (splitlines (strip (str ''# Flex\<newline># No description available.\<newline># '')))"
    by (simp add: py_eval)
  with flex_splits have ex: "\<exists>h c. splits_at_first (str ''---'') flex_text h c
      \<and> 3 \<le> length (splitlines (strip h))"
    by blast
  from load_example_succeeds_iff
         [of "files_of (str ''flex.py'') flex_text" "str ''flex.py''" flex_text, OF h1] ex
  have "\<exists>e. load_example (files_of (str ''flex.py'') flex_text) (str ''flex.py'') = Inr e"
    by blast
  then show ?thesis using h1 ex by auto
qed

text \<open>
  The claim fails on a header of two lines: the separator stands in the file, the
  header has a title line and one description line, and the parser raises.
\<close>

theorem two_line_header_fails:
  "splits_at_first (str ''---'') (str ''# T\<newline># d\<newline>---\<newline>code'')
       (str ''# T\<newline># d\<newline>'') (str ''\<newline>code'')
   \<and> splitlines (strip (str ''# T\<newline># d\<newline>'')) = [str ''# T'', str ''# d'']
   \<and> load_example (files_of (str ''f.py'') (str ''# T\<newline># d\<newline>---\<newline>code''))
         (str ''f.py'')
       = Inl IndexError"
  by (simp add: py_eval)

section \<open>Splitting at a character, and joining\<close>

lemma split_char_no_sep: "c \<notin> set t \<Longrightarrow> split_char c t = [t]"
  by (induction t) auto

lemma split_char_token: "c \<notin> set t \<Longrightarrow> split_char c (t @ c # s) = t # split_char c s"
  by (induction t) auto

lemma split_char_join:
  "toks \<noteq> [] \<Longrightarrow> list_all (\<lambda>t. c \<notin> set t) toks \<Longrightarrow> split_char c (join [c] toks) = toks"
proof (induction "[c]" toks rule: join.induct)
  case 1
  then show ?case by simp
next
  case (2 x)
  then show ?case by (simp add: split_char_no_sep)
next
  case (3 x y ys)
  then show ?case by (simp add: split_char_token)
qed



lemma split_char_tokens: "list_all (\<lambda>t. c \<notin> set t) (split_char c s)"
  by (induction s) (auto split: list.splits)

lemma set_join:
  "xs \<noteq> [] \<Longrightarrow> set (join sep xs) = (\<Union>x\<in>set xs. set x) \<union> (if length xs > 1 then set sep else {})"
  by (induction sep xs rule: join.induct) auto

section \<open>Keyword detection\<close>

lemma get_keywords_period:
  "ord CHR ''.'' \<in> set line \<Longrightarrow> get_keywords_if_available line = []"
  by (simp add: get_keywords_if_available_def)

lemma get_keywords_join:
  assumes "toks \<noteq> []" and "list_all (\<lambda>t. ord CHR '','' \<notin> set t) toks"
  shows "get_keywords_if_available (join (str '','') toks) =
           (if list_ex (\<lambda>t. ord CHR ''.'' \<in> set t) toks
               \<or> list_ex (\<lambda>t. ord CHR '' '' \<in> set (strip t)) toks
            then [] else map strip toks)"
proof -
  have "split_char (ord CHR '','') (join (str '','') toks) = toks"
    using split_char_join[of toks "ord CHR '',''"] assms by simp
  moreover have "ord CHR ''.'' \<in> set (join (str '','') toks)
      \<longleftrightarrow> list_ex (\<lambda>t. ord CHR ''.'' \<in> set t) toks"
    using assms(1) by (auto simp: set_join list_ex_iff)
  ultimately show ?thesis
    by (simp add: get_keywords_if_available_def list_ex_iff)
qed

text \<open>
  C3. The line \<open>a, b, c\<close> gives the keywords \<open>a\<close>, \<open>b\<close>, \<open>c\<close> in that order; a line
  that holds a period gives no keyword; a line one of whose comma-separated, trimmed
  tokens holds a space gives no keyword. Said of the tokens themselves: a line that
  joins comma-free tokens with commas gives the trimmed tokens, unless one of them holds
  a period or, once trimmed, a space.
\<close>

theorem keyword_detection:
  "get_keywords_if_available (str ''a, b, c'') = [str ''a'', str ''b'', str ''c'']
   \<and> get_keywords_if_available (str ''This is a sentence.'') = []
   \<and> get_keywords_if_available (str ''foo bar, baz'') = []
   \<and> (ord CHR ''.'' \<in> set line \<longrightarrow> get_keywords_if_available line = [])
   \<and> (list_ex (\<lambda>x. ord CHR '' '' \<in> set x) (map strip (split_char (ord CHR '','') line))
        \<longrightarrow> get_keywords_if_available line = [])
   \<and> (toks \<noteq> [] \<and> list_all (\<lambda>t. ord CHR '','' \<notin> set t) toks \<longrightarrow>
        get_keywords_if_available (join (str '','') toks) =
          (if list_ex (\<lambda>t. ord CHR ''.'' \<in> set t) toks
              \<or> list_ex (\<lambda>t. ord CHR '' '' \<in> set (strip t)) toks
           then [] else map strip toks))"
proof (intro conjI impI)
  show "get_keywords_if_available (str ''a, b, c'') = [str ''a'', str ''b'', str ''c'']"
    by (simp add: py_eval)
  show "get_keywords_if_available (str ''This is a sentence.'') = []"
    by (simp add: py_eval)
  show "get_keywords_if_available (str ''foo bar, baz'') = []"
    by (simp add: py_eval)
  show "get_keywords_if_available line = []" if "ord CHR ''.'' \<in> set line"
    using that by (rule get_keywords_period)
  show "get_keywords_if_available line = []"
    if "list_ex (\<lambda>x. ord CHR '' '' \<in> set x) (map strip (split_char (ord CHR '','') line))"
    using that by (simp add: get_keywords_if_available_def)
  show "get_keywords_if_available (join (str '','') toks) =
          (if list_ex (\<lambda>t. ord CHR ''.'' \<in> set t) toks
              \<or> list_ex (\<lambda>t. ord CHR '' '' \<in> set (strip t)) toks
           then [] else map strip toks)"
    if "toks \<noteq> [] \<and> list_all (\<lambda>t. ord CHR '','' \<notin> set t) toks"
    using that get_keywords_join by blast
qed

theorem keyword_detection_witness:
  "ord CHR ''.'' \<in> set (str ''No description available.'')
   \<and> get_keywords_if_available (str ''No description available.'') = []
   \<and> list_ex (\<lambda>x. ord CHR '' '' \<in> set x)
        (map strip (split_char (ord CHR '','') (str ''wide table, form'')))
   \<and> get_keywords_if_available (str ''wide table, form'') = []
   \<and> [str ''table'', str '' form''] \<noteq> []
   \<and> list_all (\<lambda>t. ord CHR '','' \<notin> set t) [str ''table'', str '' form'']
   \<and> get_keywords_if_available (join (str '','') [str ''table'', str '' form''])
       = [str ''table'', str ''form'']"
proof -
  have p: "ord CHR ''.'' \<in> set (str ''No description available.'')" by simp
  have s: "list_ex (\<lambda>x. ord CHR '' '' \<in> set x)
        (map strip (split_char (ord CHR '','') (str ''wide table, form'')))"
    by (simp add: py_eval)
  have t: "[str ''table'', str '' form''] \<noteq> []
      \<and> list_all (\<lambda>t. ord CHR '','' \<notin> set t) [str ''table'', str '' form'']"
    by simp
  have m: "(if list_ex (\<lambda>t. ord CHR ''.'' \<in> set t) [str ''table'', str '' form'']
              \<or> list_ex (\<lambda>t. ord CHR '' '' \<in> set (strip t)) [str ''table'', str '' form'']
           then [] else map strip [str ''table'', str '' form''])
         = [str ''table'', str ''form'']"
    by (simp add: py_eval)
  from keyword_detection[of "str ''No description available.''" "[str ''table'', str '' form'']"] p
  have 1: "get_keywords_if_available (str ''No description available.'') = []" by blast
  from keyword_detection[of "str ''wide table, form''" "[]"] s
  have 2: "get_keywords_if_available (str ''wide table, form'') = []" by blast
  from keyword_detection[of "[]" "[str ''table'', str '' form'']"] t
  have "get_keywords_if_available (join (str '','') [str ''table'', str '' form''])
      = (if list_ex (\<lambda>t. ord CHR ''.'' \<in> set t) [str ''table'', str '' form'']
              \<or> list_ex (\<lambda>t. ord CHR '' '' \<in> set (strip t)) [str ''table'', str '' form'']
           then [] else map strip [str ''table'', str '' form''])"
    by blast
  with m have 3: "get_keywords_if_available (join (str '','') [str ''table'', str '' form''])
       = [str ''table'', str ''form'']" by (simp only:)
  from p 1 s 2 t 3 show ?thesis by (intro conjI) blast+
qed

section \<open>The blank tag line\<close>

lemma get_keywords_single:
  assumes "ord CHR '','' \<notin> set line" and "ord CHR ''.'' \<notin> set line"
    and "ord CHR '' '' \<notin> set (strip line)"
  shows "get_keywords_if_available line = [strip line]"
  using assms split_char_no_sep[of "ord CHR '',''" line]
  by (simp add: get_keywords_if_available_def)

lemma to_md_blank_keyword:
  assumes "keywords e = [[]]"
  shows "to_md e =
     str ''---\<newline>title: '' @ title e
     @ str ''\<newline>keywords:\<newline>  - \<newline>---\<newline>\<newline>import useBaseUrl from '@docusaurus/useBaseUrl';\<newline>\<newline>        \<newline>\<newline>''
     @ description e
     @ str ''\<newline>\<newline><div className='cover' style={{ backgroundImage: 'url(' + require('./assets/''
     @ slug e
     @ str ''.png').default + ')' }} />\<newline>\<newline>```py\<newline>''
     @ code e
     @ str ''\<newline>```\<newline>        \<newline>\<newline>**Tags**: '' @ [8194]
     @ str ''<a href={useBaseUrl('docs/examples/examples-tags#')}></a>\<newline>\<newline>            ''"
  using assms by (simp add: to_md_def to_md_header_def to_md_footer_def to_md_body_def keyword_tag_def)

text \<open>
  C10. A tag line with no comma, no period and, once trimmed, no space gives the one
  keyword that is the trimmed line; the empty line gives the one keyword \<open>''\<close>. So
  when the header line before the last one is blank once its comment marks are removed,
  the example is loaded with the keyword list \<open>['']\<close>, and the page \<open>to_md\<close> renders for
  it has the front matter with the empty keyword entry, the import line, the body, and
  the Tags footer with the link of the empty keyword.
\<close>

theorem blank_tag_line_is_a_keyword:
  "(ord CHR '','' \<notin> set line \<and> ord CHR ''.'' \<notin> set line \<and> ord CHR '' '' \<notin> set (strip line)
      \<longrightarrow> get_keywords_if_available line = [strip line])
   \<and> get_keywords_if_available (str '''') = [str '''']
   \<and> (fs f = Some contents \<and> splits_at_first (str ''---'') contents h c
        \<and> 3 \<le> length (splitlines (strip h))
        \<and> strip_comment (splitlines (strip h) ! (length (splitlines (strip h)) - 2)) = str ''''
      \<longrightarrow> (\<exists>e. load_example fs f = Inr e \<and> keywords e = [str '''']
             \<and> to_md e =
                 str ''---\<newline>title: '' @ title e
                 @ str ''\<newline>keywords:\<newline>  - \<newline>---\<newline>\<newline>import useBaseUrl from '@docusaurus/useBaseUrl';\<newline>\<newline>        \<newline>\<newline>''
                 @ description e
                 @ str ''\<newline>\<newline><div className='cover' style={{ backgroundImage: 'url(' + require('./assets/''
                 @ slug e
                 @ str ''.png').default + ')' }} />\<newline>\<newline>```py\<newline>''
                 @ code e
                 @ str ''\<newline>```\<newline>        \<newline>\<newline>**Tags**: '' @ [8194]
                 @ str ''<a href={useBaseUrl('docs/examples/examples-tags#')}></a>\<newline>\<newline>            ''))"
proof (intro conjI impI)
  show "get_keywords_if_available line = [strip line]"
    if "ord CHR '','' \<notin> set line \<and> ord CHR ''.'' \<notin> set line \<and> ord CHR '' '' \<notin> set (strip line)"
    using that get_keywords_single by blast
  show "get_keywords_if_available (str '''') = [str '''']"
    by (simp add: py_eval)
  show "\<exists>e. load_example fs f = Inr e \<and> keywords e = [str '''']
             \<and> to_md e =
                 str ''---\<newline>title: '' @ title e
                 @ str ''\<newline>keywords:\<newline>  - \<newline>---\<newline>\<newline>import useBaseUrl from '@docusaurus/useBaseUrl';\<newline>\<newline>        \<newline>\<newline>''
                 @ description e
                 @ str ''\<newline>\<newline><div className='cover' style={{ backgroundImage: 'url(' + require('./assets/''
                 @ slug e
                 @ str ''.png').default + ')' }} />\<newline>\<newline>```py\<newline>''
                 @ code e
                 @ str ''\<newline>```\<newline>        \<newline>\<newline>**Tags**: '' @ [8194]
                 @ str ''<a href={useBaseUrl('docs/examples/examples-tags#')}></a>\<newline>\<newline>            ''"
    if a: "fs f = Some contents \<and> splits_at_first (str ''---'') contents h c
        \<and> 3 \<le> length (splitlines (strip h))
        \<and> strip_comment (splitlines (strip h) ! (length (splitlines (strip h)) - 2)) = str ''''"
  proof -
    define e where "e = Example_init f (strip_comment (splitlines (strip h) ! 0))
        (join [10] (map strip_comment (drop 1 (splitlines (strip h)))))
        (get_keywords_if_available [])
        (strip c)"
    have l: "load_example fs f = Inr e"
      using a load_example_present[of fs f contents h c] by (simp add: Let_def e_def)
    have k: "keywords e = [[]]"
      by (simp add: e_def Example_init_def Let_def get_keywords_if_available_def strip_def strip_with_def)
    from l k to_md_blank_keyword[OF k] show ?thesis by (intro exI[of _ e] conjI) simp_all
  qed
qed

theorem blank_tag_line_is_a_keyword_witness:
  "ord CHR '','' \<notin> set (str '' chart '') \<and> ord CHR ''.'' \<notin> set (str '' chart '')
   \<and> ord CHR '' '' \<notin> set (strip (str '' chart ''))
   \<and> get_keywords_if_available (str '' chart '') = [str ''chart'']
   \<and> files_of (str ''t.py'') blank_tag_text (str ''t.py'') = Some blank_tag_text
   \<and> splits_at_first (str ''---'') blank_tag_text (str ''# T\<newline># d\<newline>#\<newline># '') (str ''\<newline>code'')
   \<and> splitlines (strip (str ''# T\<newline># d\<newline>#\<newline># '')) = [str ''# T'', str ''# d'', str ''#'', str ''#'']
   \<and> load_example (files_of (str ''t.py'') blank_tag_text) (str ''t.py'')
       = Inr (Example_init (str ''t.py'') (str ''T'') (str ''d\<newline>\<newline>'') [str ''''] (str ''code''))
   \<and> to_md (Example_init (str ''t.py'') (str ''T'') (str ''d\<newline>\<newline>'') [str ''''] (str ''code''))
       = str ''---\<newline>title: T\<newline>keywords:\<newline>  - \<newline>---\<newline>\<newline>import useBaseUrl from '@docusaurus/useBaseUrl';\<newline>\<newline>        \<newline>\<newline>d\<newline>\<newline>\<newline>\<newline><div className='cover' style={{ backgroundImage: 'url(' + require('./assets/t.png').default + ')' }} />\<newline>\<newline>```py\<newline>code\<newline>```\<newline>        \<newline>\<newline>**Tags**: ''
         @ [8194]
         @ str ''<a href={useBaseUrl('docs/examples/examples-tags#')}></a>\<newline>\<newline>            ''"
proof -
  let ?e = "Example_init (str ''t.py'') (str ''T'') (str ''d\<newline>\<newline>'') [str ''''] (str ''code'')"
  have a: "ord CHR '','' \<notin> set (str '' chart '') \<and> ord CHR ''.'' \<notin> set (str '' chart '')
      \<and> ord CHR '' '' \<notin> set (strip (str '' chart ''))"
    by (simp add: py_eval)
  have s: "strip (str '' chart '') = str ''chart''" by (simp add: py_eval)
  have b: "files_of (str ''t.py'') blank_tag_text (str ''t.py'') = Some blank_tag_text
      \<and> splits_at_first (str ''---'') blank_tag_text (str ''# T\<newline># d\<newline>#\<newline># '') (str ''\<newline>code'')"
    by (simp add: py_eval blank_tag_text_def)
  have l: "splitlines (strip (str ''# T\<newline># d\<newline>#\<newline># '')) = [str ''# T'', str ''# d'', str ''#'', str ''#'']"
    by (simp add: py_eval)
  have t: "3 \<le> length (splitlines (strip (str ''# T\<newline># d\<newline>#\<newline># '')))
      \<and> strip_comment (splitlines (strip (str ''# T\<newline># d\<newline>#\<newline># ''))
            ! (length (splitlines (strip (str ''# T\<newline># d\<newline>#\<newline># ''))) - 2)) = str ''''"
    by (simp add: l) (simp add: py_eval)
  have 3: "load_example (files_of (str ''t.py'') blank_tag_text) (str ''t.py'') = Inr ?e"
    by (simp add: py_eval blank_tag_text_def)
  have f: "title ?e = str ''T'' \<and> description ?e = str ''d\<newline>\<newline>'' \<and> slug ?e = str ''t''
      \<and> code ?e = str ''code''"
    by (simp add: py_eval)
  note inst = blank_tag_line_is_a_keyword
    [of "str '' chart ''" "files_of (str ''t.py'') blank_tag_text" "str ''t.py''" blank_tag_text
        "str ''# T\<newline># d\<newline>#\<newline># ''" "str ''\<newline>code''"]
  from inst a have "get_keywords_if_available (str '' chart '') = [strip (str '' chart '')]"
    by blast
  then have 1: "get_keywords_if_available (str '' chart '') = [str ''chart'']"
    by (simp only: s)
  from inst b t obtain e where e: "load_example (files_of (str ''t.py'') blank_tag_text) (str ''t.py'') = Inr e"
    and p: "to_md e =
                 str ''---\<newline>title: '' @ title e
                 @ str ''\<newline>keywords:\<newline>  - \<newline>---\<newline>\<newline>import useBaseUrl from '@docusaurus/useBaseUrl';\<newline>\<newline>        \<newline>\<newline>''
                 @ description e
                 @ str ''\<newline>\<newline><div className='cover' style={{ backgroundImage: 'url(' + require('./assets/''
                 @ slug e
                 @ str ''.png').default + ')' }} />\<newline>\<newline>```py\<newline>''
                 @ code e
                 @ str ''\<newline>```\<newline>        \<newline>\<newline>**Tags**: '' @ [8194]
                 @ str ''<a href={useBaseUrl('docs/examples/examples-tags#')}></a>\<newline>\<newline>            ''"
    by blast
  from e 3 have "e = ?e" by simp
  with p f have 4: "to_md ?e
       = str ''---\<newline>title: T\<newline>keywords:\<newline>  - \<newline>---\<newline>\<newline>import useBaseUrl from '@docusaurus/useBaseUrl';\<newline>\<newline>        \<newline>\<newline>d\<newline>\<newline>\<newline>\<newline><div className='cover' style={{ backgroundImage: 'url(' + require('./assets/t.png').default + ')' }} />\<newline>\<newline>```py\<newline>code\<newline>```\<newline>        \<newline>\<newline>**Tags**: ''
         @ [8194]
         @ str ''<a href={useBaseUrl('docs/examples/examples-tags#')}></a>\<newline>\<newline>            ''"
    by simp
  from a 1 b l 3 4 show ?thesis by (intro conjI) blast+
qed

section \<open>Names and slugs\<close>

lemma rfind_map:
  assumes "\<And>x. g x = c \<longleftrightarrow> x = c"
  shows "rfind c (map g s) = rfind c s"
proof -
  have "(\<lambda>x. x \<noteq> c) \<circ> g = (\<lambda>x. x \<noteq> c)" using assms by auto
  then have "length (takeWhile (\<lambda>x. x \<noteq> c) (rev (map g s)))
      = length (takeWhile (\<lambda>x. x \<noteq> c) (rev s))"
    by (simp add: rev_map takeWhile_map)
  moreover have "c \<in> set (map g s) \<longleftrightarrow> c \<in> set s"
  proof -
    have "c \<in> set (map g s) \<longleftrightarrow> (\<exists>x\<in>set s. g x = c)" by auto
    then show ?thesis by (simp add: assms)
  qed
  ultimately show ?thesis by (simp add: rfind_def)
qed

lemma rfind_range: "- 1 \<le> rfind c s \<and> rfind c s < int (length s)"
proof (cases "c \<in> set s")
  case True
  have "length (takeWhile P xs) < length xs" if "\<exists>x\<in>set xs. \<not> P x" for P and xs :: pystr
    using that by (induction xs) auto
  from this[of "rev s" "\<lambda>x. x \<noteq> c"] True
  have "length (takeWhile (\<lambda>x. x \<noteq> c) (rev s)) < length (rev s)" by auto
  with True show ?thesis by (simp add: rfind_def)
next
  case False
  then show ?thesis by (simp add: rfind_def)
qed

lemma splitext_replace:
  "splitext (replace_char (ord CHR ''_'') (ord CHR ''-'') s)
     = (replace_char (ord CHR ''_'') (ord CHR ''-'') (fst (splitext s)),
        replace_char (ord CHR ''_'') (ord CHR ''-'') (snd (splitext s)))"
proof -
  let ?g = "\<lambda>c::nat. if c = 95 then 45 else c"
  have sep: "rfind 47 (map ?g s) = rfind 47 s" by (rule rfind_map) auto
  have dot: "rfind 46 (map ?g s) = rfind 46 s" by (rule rfind_map) auto
  have ex: "list_ex (\<lambda>c. c \<noteq> 46) (map ?g xs) = list_ex (\<lambda>c. c \<noteq> 46) xs" for xs :: pystr
    by (induction xs) auto
  show ?thesis
    by (simp add: splitext_def replace_char_def sep dot ex Let_def take_map drop_map)
qed

lemma splitext_no_ext:
  "snd (splitext p) = [] \<longleftrightarrow> fst (splitext p) = p"
proof -
  have "rfind 46 p < int (length p)" using rfind_range by blast
  then show ?thesis
    by (auto simp: splitext_def Let_def)
qed

lemma splitext_same_length:
  assumes "length (fst (splitext p)) = length p"
  shows "fst (splitext p) = p"
proof -
  have "rfind 46 p < int (length p)" using rfind_range by blast
  with assms show ?thesis
    by (auto simp: splitext_def Let_def split: if_splits)
qed

lemma replace_char_twice:
  "replace_char (ord CHR ''_'') (ord CHR ''-'') (replace_char (ord CHR ''_'') (ord CHR ''-'') s)
     = replace_char (ord CHR ''_'') (ord CHR ''-'') s"
  by (simp add: replace_char_def)

lemma slug_init:
  "slug (Example_init f t d k c) = replace_char (ord CHR ''_'') (ord CHR ''-'') (fst (splitext f))"
  by (simp add: Example_init_def Let_def)

lemma slug_rederived:
  "slug (Example_init (slug (Example_init f t d k c)) t' d' k' c')
     = replace_char (ord CHR ''_'') (ord CHR ''-'') (fst (splitext (fst (splitext f))))"
  by (simp only: slug_init splitext_replace fst_conv replace_char_twice)

text \<open>
  C9, as amended. The name is the file name without its extension and the slug is the
  name with every underscore replaced by a hyphen, so \<open>my_example.py\<close> has the slug
  \<open>my-example\<close>, and deriving again from \<open>my-example\<close> gives \<open>my-example\<close>. Deriving again
  from a slug returns it unchanged exactly when the name has no extension of its own
  left; it is not unchanged for every file name.
\<close>

theorem slug_derivation:
  "name (Example_init f t d k c) = fst (splitext f)
   \<and> slug (Example_init f t d k c)
       = replace_char (ord CHR ''_'') (ord CHR ''-'') (fst (splitext f))
   \<and> slug (Example_init (str ''my_example.py'') t d k c) = str ''my-example''
   \<and> slug (Example_init (str ''my-example'') t' d' k' c') = str ''my-example''
   \<and> (slug (Example_init (slug (Example_init f t d k c)) t' d' k' c')
          = slug (Example_init f t d k c)
        \<longleftrightarrow> snd (splitext (fst (splitext f))) = [])"
proof (intro conjI)
  show "name (Example_init f t d k c) = fst (splitext f)"
    by (simp add: Example_init_def Let_def)
  show "slug (Example_init f t d k c)
       = replace_char (ord CHR ''_'') (ord CHR ''-'') (fst (splitext f))"
    by (rule slug_init)
  show "slug (Example_init (str ''my_example.py'') t d k c) = str ''my-example''"
    by (simp add: py_eval)
  show "slug (Example_init (str ''my-example'') t' d' k' c') = str ''my-example''"
    by (simp add: py_eval)
  let ?n = "fst (splitext f)"
  show "slug (Example_init (slug (Example_init f t d k c)) t' d' k' c')
          = slug (Example_init f t d k c)
        \<longleftrightarrow> snd (splitext ?n) = []"
  proof
    assume "slug (Example_init (slug (Example_init f t d k c)) t' d' k' c')
          = slug (Example_init f t d k c)"
    from trans[OF trans[OF slug_rederived[of f t d k c t' d' k' c', symmetric] this]
                  slug_init[of f t d k c]]
    have "replace_char (ord CHR ''_'') (ord CHR ''-'') (fst (splitext ?n))
        = replace_char (ord CHR ''_'') (ord CHR ''-'') ?n" .
    then have "length (replace_char (ord CHR ''_'') (ord CHR ''-'') (fst (splitext ?n)))
        = length (replace_char (ord CHR ''_'') (ord CHR ''-'') ?n)"
      by (rule arg_cong)
    then have "length (fst (splitext ?n)) = length ?n"
      by (simp add: replace_char_def)
    then have "fst (splitext ?n) = ?n"
      by (rule splitext_same_length)
    then show "snd (splitext ?n) = []" by (rule iffD2[OF splitext_no_ext])
  next
    assume "snd (splitext ?n) = []"
    then have "fst (splitext ?n) = ?n" by (rule iffD1[OF splitext_no_ext])
    then have "replace_char (ord CHR ''_'') (ord CHR ''-'') (fst (splitext ?n))
        = replace_char (ord CHR ''_'') (ord CHR ''-'') ?n"
      by (rule arg_cong)
    from trans[OF trans[OF slug_rederived[of f t d k c t' d' k' c'] this]
                  slug_init[of f t d k c, symmetric]]
    show "slug (Example_init (slug (Example_init f t d k c)) t' d' k' c')
          = slug (Example_init f t d k c)" .
  qed
qed

text \<open>
  The claim's idempotence fails on a file name with two dots: the slug of
  \<open>plot.line_chart.py\<close> is \<open>plot.line-chart\<close>, and deriving from that slug removes
  \<open>.line-chart\<close> as an extension.
\<close>

theorem slug_rederivation_changes:
  "slug (Example_init (str ''plot.line_chart.py'') [] [] [] []) = str ''plot.line-chart''
   \<and> slug (Example_init (str ''plot.line-chart'') [] [] [] []) = str ''plot''"
  by (simp add: py_eval)

section \<open>The page of one example\<close>

lemma dash_prefix: "(\<lambda>x::pystr. 32 # 32 # 45 # 32 # x) = (@) [32, 32, 45, 32]"
  by (rule ext) simp

lemma to_md_body_ends: "suffix (str ''\<newline>```\<newline>        '') (to_md_body e)"
  unfolding to_md_body_def suffix_def by (metis append.assoc)

text \<open>
  C5, as amended. The claim has the front matter omitted when there is no keyword. The
  page of an example without keywords still opens with a front matter that holds the
  title; what it lacks is the keyword list, the import line and the Tags footer, so it
  ends with the code block. The page of an example with keywords has the keyword list
  in its front matter, the import line, and the footer with one link for each keyword.
\<close>

theorem to_md_by_keywords:
  "(keywords e = [] \<longrightarrow>
      to_md e = str ''---\<newline>title: '' @ title e @ str ''\<newline>---\<newline>        '' @ to_md_body e
      \<and> suffix (str ''\<newline>```\<newline>        '') (to_md e))
   \<and> (keywords e \<noteq> [] \<longrightarrow>
      to_md e =
        str ''---\<newline>title: '' @ title e @ str ''\<newline>keywords:\<newline>''
        @ join [10] (map (\<lambda>x. str ''  - '' @ x) (keywords e))
        @ str ''\<newline>---\<newline>\<newline>import useBaseUrl from '@docusaurus/useBaseUrl';\<newline>\<newline>        ''
        @ to_md_body e
        @ str ''\<newline>\<newline>**Tags**: '' @ [8194]
        @ join [32, 8194] (map keyword_tag (keywords e))
        @ str ''\<newline>\<newline>            '')"
proof (intro conjI impI)
  assume k: "keywords e = []"
  then show "to_md e = str ''---\<newline>title: '' @ title e @ str ''\<newline>---\<newline>        '' @ to_md_body e"
    by (simp add: to_md_def to_md_header_def to_md_footer_def)
  have "to_md e = to_md_header e @ to_md_body e"
    using k by (simp add: to_md_def to_md_footer_def)
  then show "suffix (str ''\<newline>```\<newline>        '') (to_md e)"
    using to_md_body_ends[of e] by (simp only: suffix_append) blast
next
  assume "keywords e \<noteq> []"
  then show "to_md e =
        str ''---\<newline>title: '' @ title e @ str ''\<newline>keywords:\<newline>''
        @ join [10] (map (\<lambda>x. str ''  - '' @ x) (keywords e))
        @ str ''\<newline>---\<newline>\<newline>import useBaseUrl from '@docusaurus/useBaseUrl';\<newline>\<newline>        ''
        @ to_md_body e
        @ str ''\<newline>\<newline>**Tags**: '' @ [8194]
        @ join [32, 8194] (map keyword_tag (keywords e))
        @ str ''\<newline>\<newline>            ''"
    by (simp add: to_md_def to_md_header_def to_md_footer_def dash_prefix)
qed

theorem to_md_by_keywords_witness:
  "keywords flex_example = []
   \<and> to_md flex_example =
       str ''---\<newline>title: '' @ title flex_example @ str ''\<newline>---\<newline>        ''
       @ to_md_body flex_example
   \<and> suffix (str ''\<newline>```\<newline>        '') (to_md flex_example)
   \<and> keywords gauge_example \<noteq> []
   \<and> to_md gauge_example =
        str ''---\<newline>title: '' @ title gauge_example @ str ''\<newline>keywords:\<newline>''
        @ join [10] (map (\<lambda>x. str ''  - '' @ x) (keywords gauge_example))
        @ str ''\<newline>---\<newline>\<newline>import useBaseUrl from '@docusaurus/useBaseUrl';\<newline>\<newline>        ''
        @ to_md_body gauge_example
        @ str ''\<newline>\<newline>**Tags**: '' @ [8194]
        @ join [32, 8194] (map keyword_tag (keywords gauge_example))
        @ str ''\<newline>\<newline>            ''"
proof -
  have a: "keywords flex_example = []" by (simp add: flex_example_def Example_init_def Let_def)
  have b: "keywords gauge_example \<noteq> []" by (simp add: gauge_example_def Example_init_def Let_def)
  from to_md_by_keywords[of flex_example] a to_md_by_keywords[of gauge_example] b
  show ?thesis by blast
qed

text \<open>
  The claim fails on the example file of the repository, which has no keyword: its page
  opens with the front matter \<open>---\<close>, \<open>title: Flex\<close>, \<open>---\<close>.
\<close>

theorem front_matter_without_keywords:
  "keywords flex_example = []
   \<and> to_md flex_example =
       str ''---\<newline>title: Flex\<newline>---\<newline>        \<newline>\<newline>No description available.\<newline>\<newline>\<newline><div className='cover' style={{ backgroundImage: 'url(' + require('./assets/flex.png').default + ')' }} />\<newline>\<newline>```py\<newline>import random\<newline>\<newline>page.sync()\<newline>```\<newline>        ''"
  by (simp add: flex_example_def page_eval py_eval)

section \<open>The table of contents\<close>

lemma join_snoc: "xs \<noteq> [] \<Longrightarrow> join sep (xs @ [y]) = join sep xs @ sep @ y"
  by (induction sep xs rule: join.induct) auto

text \<open>
  C8. The table of contents is its preamble and then one entry for each example, in the
  order of the list it is given, two newlines between entries; an entry is the link to
  the example's page with its title, a colon and the subtitle. Adding an example at the
  end of the list adds its entry at the end of the page, whatever the titles are: the
  page of Zebra followed by Apple lists Zebra first.
\<close>

theorem make_toc_keeps_order:
  "make_toc es =
     str ''---\<newline>title: All Examples\<newline>slug: /examples/all\<newline>---\<newline>\<newline>import useBaseUrl from '@docusaurus/useBaseUrl';\<newline>\<newline>''
     @ join [10, 10]
         (map (\<lambda>e. str ''- <a href={useBaseUrl('docs/examples/'' @ slug e @ str ''')}>'' @ title e
                    @ str ''</a>: '' @ subtitle e) es)
   \<and> make_toc (es @ [e]) = make_toc es @ (if es = [] then [] else [10, 10]) @ toc_entry e
   \<and> make_toc
         [Example_init (str ''zebra.py'') (str ''Zebra'') (str ''Stripes.\<newline>'') [] (str ''z = 1''),
          Example_init (str ''apple.py'') (str ''Apple'') (str ''Fruit.\<newline>'') [] (str ''a = 1'')]
       = str ''---\<newline>title: All Examples\<newline>slug: /examples/all\<newline>---\<newline>\<newline>import useBaseUrl from '@docusaurus/useBaseUrl';\<newline>\<newline>- <a href={useBaseUrl('docs/examples/zebra')}>Zebra</a>: Stripes.\<newline>\<newline>- <a href={useBaseUrl('docs/examples/apple')}>Apple</a>: Fruit.''"
proof (intro conjI)
  have "toc_entry = (\<lambda>e. str ''- <a href={useBaseUrl('docs/examples/'' @ slug e @ str ''')}>'' @ title e
                    @ str ''</a>: '' @ subtitle e)"
    by (rule ext) (simp add: toc_entry_def)
  then show "make_toc es =
     str ''---\<newline>title: All Examples\<newline>slug: /examples/all\<newline>---\<newline>\<newline>import useBaseUrl from '@docusaurus/useBaseUrl';\<newline>\<newline>''
     @ join [10, 10]
         (map (\<lambda>e. str ''- <a href={useBaseUrl('docs/examples/'' @ slug e @ str ''')}>'' @ title e
                    @ str ''</a>: '' @ subtitle e) es)"
    by (simp only: make_toc_def)
  show "make_toc (es @ [e]) = make_toc es @ (if es = [] then [] else [10, 10]) @ toc_entry e"
  proof (cases "es = []")
    case True
    then show ?thesis by (simp add: make_toc_def)
  next
    case False
    then have "join [10, 10] (map toc_entry es @ [toc_entry e])
        = join [10, 10] (map toc_entry es) @ [10, 10] @ toc_entry e"
      by (intro join_snoc) simp
    with False show ?thesis by (simp add: make_toc_def)
  qed
  show "make_toc
         [Example_init (str ''zebra.py'') (str ''Zebra'') (str ''Stripes.\<newline>'') [] (str ''z = 1''),
          Example_init (str ''apple.py'') (str ''Apple'') (str ''Fruit.\<newline>'') [] (str ''a = 1'')]
       = str ''---\<newline>title: All Examples\<newline>slug: /examples/all\<newline>---\<newline>\<newline>import useBaseUrl from '@docusaurus/useBaseUrl';\<newline>\<newline>- <a href={useBaseUrl('docs/examples/zebra')}>Zebra</a>: Stripes.\<newline>\<newline>- <a href={useBaseUrl('docs/examples/apple')}>Apple</a>: Fruit.''"
    by (simp add: make_toc_def toc_entry_def py_eval)
qed

section \<open>The order of the manifest\<close>

lemma load_example_filename:
  assumes "load_example fs f = Inr e"
  shows "filename e = f"
proof -
  have "filename (Example_init f t d k c) = f" for t d k c
    by (simp add: Example_init_def Let_def)
  with assms show ?thesis
    by (auto simp: load_example_def Let_def split: sum.splits)
qed

lemma main_examples_filenames:
  "main_examples fs fns = Inr es \<Longrightarrow> map filename es = fns"
proof (induction fns arbitrary: es)
  case Nil
  then show ?case by simp
next
  case (Cons f rest)
  then obtain e es' where e: "load_example fs f = Inr e"
      and es': "main_examples fs rest = Inr es'" and es: "es = e # es'"
    by (auto split: sum.splits)
  from Cons.IH[OF es'] load_example_filename[OF e] es show ?case by simp
qed

lemma strip_blank: "list_all isspace l \<Longrightarrow> strip l = []"
proof -
  assume "list_all isspace l"
  then have d: "dropWhile isspace l = []" by (induction l) auto
  show ?thesis by (simp only: strip_def strip_with_def d rev.simps dropWhile.simps)
qed

lemma main_examples_parsed:
  "main_examples fs fns = Inr es \<Longrightarrow> map (load_example fs) fns = map Inr es"
proof (induction fns arbitrary: es)
  case Nil
  then show ?case by simp
next
  case (Cons f rest)
  then obtain e es' where e: "load_example fs f = Inr e"
      and es': "main_examples fs rest = Inr es'" and es: "es = e # es'"
    by (auto split: sum.splits)
  from Cons.IH[OF es'] e es show ?case by simp
qed

lemma main_examples_fails:
  "f \<in> set fns \<Longrightarrow> load_example fs f = Inl e0 \<Longrightarrow> \<exists>err. main_examples fs fns = Inl err"
proof (induction fns)
  case Nil
  then show ?case by simp
next
  case (Cons g rest)
  show ?case
  proof (cases "load_example fs g")
    case (Inl err)
    then show ?thesis by simp
  next
    case (Inr e)
    with Cons have "f \<in> set rest" by auto
    from Cons.IH[OF this Cons.prems(2)] obtain err where "main_examples fs rest = Inl err" ..
    with Inr show ?thesis by simp
  qed
qed

lemma load_example_unreadable: "fs f = None \<Longrightarrow> load_example fs f = Inl OSError"
  by (simp add: load_example_def read_file_def)

lemma write_pages_log:
  "write_pages writable path_exists md th es = Inr pages \<Longrightarrow>
   pages = concat (map (\<lambda>e. Wrote (path_join md (slug e @ str ''.md'')) (to_md e)
                              # thumbnail_alert path_exists th e) es)"
proof (induction es arbitrary: pages)
  case Nil
  then show ?case by simp
next
  case (Cons e es)
  then obtain rest where r: "write_pages writable path_exists md th es = Inr rest"
      and p: "pages = Wrote (path_join md (slug e @ str ''.md'')) (to_md e)
                      # thumbnail_alert path_exists th e @ rest"
    by (auto simp: write_file_def split: sum.splits if_splits)
  from Cons.IH[OF r] p show ?case by simp
qed

lemma main_fails_on_examples:
  assumes "fs (str ''tour.conf'') = Some conf"
    and "main_examples fs (main_filenames (readlines_from [] conf)) = Inl err"
  shows "main website_dir dumps fs path_exists writable = Inl err"
  using assms by (simp add: main_def read_lines_def read_file_def)

lemma main_completes:
  assumes "fs (str ''tour.conf'') = Some conf"
    and "main website_dir dumps fs path_exists writable = Inr log"
  shows "\<exists>es pages.
      main_examples fs (main_filenames (readlines_from [] conf)) = Inr es
      \<and> write_pages writable path_exists
            (path_join (path_join website_dir (str ''docs'')) (str ''examples''))
            (path_join (path_join (path_join website_dir (str ''docs'')) (str ''examples''))
               (str ''assets'')) es = Inr pages
      \<and> log = pages @
          [Wrote (path_join website_dir (str ''examples.js''))
             (str ''module.exports=''
              @ dumps (str ''index'' # str ''all'' # str ''examples-tags'' # map slug es)),
           Wrote (path_join (path_join (path_join website_dir (str ''docs'')) (str ''examples''))
                    (str ''index.md'')) (make_gallery es),
           Wrote (path_join (path_join (path_join website_dir (str ''docs'')) (str ''examples''))
                    (str ''all.md'')) (make_toc es),
           Wrote (path_join (path_join (path_join website_dir (str ''docs'')) (str ''examples''))
                    (str ''examples-tags.md'')) (make_examples_by_keyword es)]"
proof (cases "main_examples fs (main_filenames (readlines_from [] conf))")
  case (Inl err)
  from main_fails_on_examples[OF assms(1) Inl] assms(2) show ?thesis by simp
next
  case (Inr es)
  let ?md = "path_join (path_join website_dir (str ''docs'')) (str ''examples'')"
  show ?thesis
  proof (cases "write_pages writable path_exists ?md (path_join ?md (str ''assets'')) es")
    case (Inl err)
    with Inr assms show ?thesis
      by (simp add: main_def read_lines_def read_file_def Let_def)
  next
    case pages: (Inr pages)
    with Inr assms show ?thesis
      by (simp add: main_def read_lines_def read_file_def Let_def write_file_def
          split: if_splits)
  qed
qed

text \<open>
  C6, as amended. The claim has blank lines left out of the manifest. \<open>main\<close> leaves out
  the lines whose trimmed text starts with \<open>#\<close> and nothing else: every other line gives
  its trimmed text as a file name, in the order of the lines, and a blank line gives
  the empty file name. The empty name is the examples directory itself, which holds no
  text to read, so a run on a manifest with a blank line raises. A run that completes
  has parsed one example for each file name, in the order of the manifest, and that
  order is the order of everything it writes: the pages of the examples, one after the
  other, each followed by its alert when the thumbnail is missing; the slugs of
  \<open>examples.js\<close> after the three fixed ones; the thumbnails of the gallery; the entries of
  the table of contents; and the examples handed to the tag index.
\<close>

theorem main_filenames_order:
  "main_filenames [] = []
   \<and> main_filenames (l # ls) =
       (if prefix (str ''#'') (strip l) then main_filenames ls else strip l # main_filenames ls)
   \<and> (list_all isspace l \<longrightarrow> main_filenames (l # ls) = str '''' # main_filenames ls)
   \<and> (fs (str ''tour.conf'') = Some conf \<and> fs (str '''') = None
        \<and> str '''' \<in> set (main_filenames (readlines_from [] conf))
      \<longrightarrow> (\<exists>err. main website_dir dumps fs path_exists writable = Inl err))
   \<and> (fs (str ''tour.conf'') = Some conf
        \<and> main website_dir dumps fs path_exists writable = Inr log
      \<longrightarrow> (\<exists>es.
            map (load_example fs) (main_filenames (readlines_from [] conf)) = map Inr es
            \<and> map filename es = main_filenames (readlines_from [] conf)
            \<and> log =
                concat (map (\<lambda>e. Wrote (path_join (path_join (path_join website_dir (str ''docs''))
                                                     (str ''examples'')) (slug e @ str ''.md''))
                                        (to_md e)
                                  # thumbnail_alert path_exists
                                      (path_join (path_join (path_join website_dir (str ''docs''))
                                                    (str ''examples'')) (str ''assets'')) e) es)
                @ [Wrote (path_join website_dir (str ''examples.js''))
                     (str ''module.exports=''
                      @ dumps (str ''index'' # str ''all'' # str ''examples-tags'' # map slug es)),
                   Wrote (path_join (path_join (path_join website_dir (str ''docs''))
                                       (str ''examples'')) (str ''index.md''))
                     (str ''---\<newline>title: Gallery\<newline>slug: /examples\<newline>---\<newline>\<newline>import useBaseUrl from '@docusaurus/useBaseUrl';\<newline>''
                      @ [10] @ join [10, 10] (map make_gallery_thumbnail es)),
                   Wrote (path_join (path_join (path_join website_dir (str ''docs''))
                                       (str ''examples'')) (str ''all.md''))
                     (str ''---\<newline>title: All Examples\<newline>slug: /examples/all\<newline>---\<newline>\<newline>import useBaseUrl from '@docusaurus/useBaseUrl';\<newline>\<newline>''
                      @ join [10, 10] (map toc_entry es)),
                   Wrote (path_join (path_join (path_join website_dir (str ''docs''))
                                       (str ''examples'')) (str ''examples-tags.md''))
                     (make_examples_by_keyword es)]))"
proof (intro conjI impI)
  show "main_filenames [] = []" by (simp add: main_filenames_def)
  show "main_filenames (l # ls) =
       (if prefix (str ''#'') (strip l) then main_filenames ls else strip l # main_filenames ls)"
    by (simp add: main_filenames_def)
  show "main_filenames (l # ls) = str '''' # main_filenames ls" if "list_all isspace l"
    using strip_blank[OF that] by (simp add: main_filenames_def)
  show "\<exists>err. main website_dir dumps fs path_exists writable = Inl err"
    if a: "fs (str ''tour.conf'') = Some conf \<and> fs (str '''') = None
        \<and> str '''' \<in> set (main_filenames (readlines_from [] conf))"
  proof -
    from a have "load_example fs (str '''') = Inl OSError"
      using load_example_unreadable[of fs "str ''''"] by simp
    with a obtain err where
      "main_examples fs (main_filenames (readlines_from [] conf)) = Inl err"
      using main_examples_fails[of "str ''''" "main_filenames (readlines_from [] conf)" fs OSError]
      by blast
    with a main_fails_on_examples[of fs conf err website_dir dumps path_exists writable]
    show ?thesis by blast
  qed
  let ?md = "path_join (path_join website_dir (str ''docs'')) (str ''examples'')"
  show "\<exists>es.
            map (load_example fs) (main_filenames (readlines_from [] conf)) = map Inr es
            \<and> map filename es = main_filenames (readlines_from [] conf)
            \<and> log =
                concat (map (\<lambda>e. Wrote (path_join ?md (slug e @ str ''.md'')) (to_md e)
                                  # thumbnail_alert path_exists (path_join ?md (str ''assets'')) e) es)
                @ [Wrote (path_join website_dir (str ''examples.js''))
                     (str ''module.exports=''
                      @ dumps (str ''index'' # str ''all'' # str ''examples-tags'' # map slug es)),
                   Wrote (path_join ?md (str ''index.md''))
                     (str ''---\<newline>title: Gallery\<newline>slug: /examples\<newline>---\<newline>\<newline>import useBaseUrl from '@docusaurus/useBaseUrl';\<newline>''
                      @ [10] @ join [10, 10] (map make_gallery_thumbnail es)),
                   Wrote (path_join ?md (str ''all.md''))
                     (str ''---\<newline>title: All Examples\<newline>slug: /examples/all\<newline>---\<newline>\<newline>import useBaseUrl from '@docusaurus/useBaseUrl';\<newline>\<newline>''
                      @ join [10, 10] (map toc_entry es)),
                   Wrote (path_join ?md (str ''examples-tags.md''))
                     (make_examples_by_keyword es)]"
    if a: "fs (str ''tour.conf'') = Some conf
        \<and> main website_dir dumps fs path_exists writable = Inr log"
  proof -
    from a main_completes[of fs conf website_dir dumps path_exists writable log]
    obtain es pages where
      es: "main_examples fs (main_filenames (readlines_from [] conf)) = Inr es"
      and pages: "write_pages writable path_exists ?md (path_join ?md (str ''assets'')) es = Inr pages"
      and log: "log = pages @
          [Wrote (path_join website_dir (str ''examples.js''))
             (str ''module.exports=''
              @ dumps (str ''index'' # str ''all'' # str ''examples-tags'' # map slug es)),
           Wrote (path_join ?md (str ''index.md'')) (make_gallery es),
           Wrote (path_join ?md (str ''all.md'')) (make_toc es),
           Wrote (path_join ?md (str ''examples-tags.md'')) (make_examples_by_keyword es)]"
      by blast
    note p = write_pages_log[OF pages]
    have 1: "map (load_example fs) (main_filenames (readlines_from [] conf)) = map Inr es"
      using es by (rule main_examples_parsed)
    have 2: "map filename es = main_filenames (readlines_from [] conf)"
      using es by (rule main_examples_filenames)
    show ?thesis
      by (rule exI[of _ es]) (simp only: 1 2 log p make_gallery_def make_toc_def simp_thms)
  qed
qed

lemma tour_run:
  "main (str ''/site'') dumps_plain tour_files (\<lambda>_. False) (\<lambda>_. True) =
     Inr [Wrote (str ''/site/docs/examples/flex.md'') (to_md flex_example),
          Printed (str ''*** ALERT: no thumbnail found for example '' @ [34] @ str ''flex'' @ [34]),
          Wrote (str ''/site/examples.js'')
            (str ''module.exports=''
             @ dumps_plain [str ''index'', str ''all'', str ''examples-tags'', str ''flex'']),
          Wrote (str ''/site/docs/examples/index.md'') (make_gallery [flex_example]),
          Wrote (str ''/site/docs/examples/all.md'') (make_toc [flex_example]),
          Wrote (str ''/site/docs/examples/examples-tags.md'')
            (make_examples_by_keyword [flex_example])]"
proof -
  have fns: "main_filenames (readlines_from [] (str ''# the tour\<newline>flex.py\<newline>'')) = [str ''flex.py'']"
    by (simp add: main_filenames_def py_eval)
  have ld: "load_example tour_files (str ''flex.py'') = Inr flex_example"
    by (simp add: tour_files_def py_eval flex_text_def flex_example_def)
  have ex: "main_examples tour_files [str ''flex.py''] = Inr [flex_example]"
    by (simp only: main_examples.simps ld sum.case)
  have sl: "slug flex_example = str ''flex''"
    by (simp add: flex_example_def py_eval)
  have rd: "read_lines tour_files (str ''tour.conf'')
      = Inr (readlines_from [] (str ''# the tour\<newline>flex.py\<newline>''))"
    by (simp add: read_lines_def read_file_def tour_files_def)
  have pj: "path_join (path_join (str ''/site'') (str ''docs'')) (str ''examples'') = str ''/site/docs/examples''"
    "path_join (str ''/site/docs/examples'') (str ''assets'') = str ''/site/docs/examples/assets''"
    "path_join (str ''/site/docs/examples'') (str ''flex'' @ str ''.md'') = str ''/site/docs/examples/flex.md''"
    "path_join (str ''/site'') (str ''examples.js'') = str ''/site/examples.js''"
    "path_join (str ''/site/docs/examples'') (str ''index.md'') = str ''/site/docs/examples/index.md''"
    "path_join (str ''/site/docs/examples'') (str ''all.md'') = str ''/site/docs/examples/all.md''"
    "path_join (str ''/site/docs/examples'') (str ''examples-tags.md'') = str ''/site/docs/examples/examples-tags.md''"
    by (simp_all add: path_join_def suffix_to_prefix)
  have wp: "write_pages (\<lambda>_. True) (\<lambda>_. False) (str ''/site/docs/examples'')
              (str ''/site/docs/examples/assets'') [flex_example]
      = Inr [Wrote (str ''/site/docs/examples/flex.md'') (to_md flex_example),
             Printed (str ''*** ALERT: no thumbnail found for example '' @ [34] @ str ''flex'' @ [34])]"
    by (simp only: write_pages.simps write_file_def thumbnail_alert_def sl pj if_True if_False
        sum.case not_False_eq_True append.simps)
  have ms: "map slug [flex_example] = [str ''flex'']" by (simp add: sl)
  show ?thesis
    by (simp only: main_def rd fns ex sum.case Let_def pj wp write_file_def if_True ms
        append.simps)
qed

lemma blank_tour_run:
  "main (str ''/site'') dumps_plain blank_tour_files (\<lambda>_. False) (\<lambda>_. True) = Inl OSError"
proof -
  have fns: "main_filenames (readlines_from [] (str ''flex.py\<newline>\<newline>'')) = [str ''flex.py'', str '''']"
    by (simp add: main_filenames_def py_eval)
  have ld: "load_example blank_tour_files (str ''flex.py'') = Inr flex_example"
    by (simp add: blank_tour_files_def py_eval flex_text_def flex_example_def)
  have ld2: "load_example blank_tour_files (str '''') = Inl OSError"
    by (rule load_example_unreadable) (simp add: blank_tour_files_def)
  have ex: "main_examples blank_tour_files [str ''flex.py'', str ''''] = Inl OSError"
    by (simp only: main_examples.simps ld ld2 sum.case)
  have rd: "read_lines blank_tour_files (str ''tour.conf'')
      = Inr (readlines_from [] (str ''flex.py\<newline>\<newline>''))"
    by (simp add: read_lines_def read_file_def blank_tour_files_def)
  show ?thesis by (simp only: main_def rd fns ex sum.case)
qed

theorem main_filenames_order_witness:
  "list_all isspace (str ''\<newline>'')
   \<and> main_filenames [str ''\<newline>'', str ''flex.py\<newline>''] = [str '''', str ''flex.py'']
   \<and> blank_tour_files (str ''tour.conf'') = Some (str ''flex.py\<newline>\<newline>'')
   \<and> blank_tour_files (str '''') = None
   \<and> str '''' \<in> set (main_filenames (readlines_from [] (str ''flex.py\<newline>\<newline>'')))
   \<and> (\<exists>err. main (str ''/site'') dumps_plain blank_tour_files (\<lambda>_. False) (\<lambda>_. True) = Inl err)
   \<and> tour_files (str ''tour.conf'') = Some (str ''# the tour\<newline>flex.py\<newline>'')
   \<and> main (str ''/site'') dumps_plain tour_files (\<lambda>_. False) (\<lambda>_. True) =
       Inr [Wrote (str ''/site/docs/examples/flex.md'') (to_md flex_example),
            Printed (str ''*** ALERT: no thumbnail found for example '' @ [34] @ str ''flex'' @ [34]),
            Wrote (str ''/site/examples.js'')
              (str ''module.exports=''
               @ dumps_plain [str ''index'', str ''all'', str ''examples-tags'', str ''flex'']),
            Wrote (str ''/site/docs/examples/index.md'') (make_gallery [flex_example]),
            Wrote (str ''/site/docs/examples/all.md'') (make_toc [flex_example]),
            Wrote (str ''/site/docs/examples/examples-tags.md'')
              (make_examples_by_keyword [flex_example])]
   \<and> (\<exists>es. map (load_example tour_files)
                (main_filenames (readlines_from [] (str ''# the tour\<newline>flex.py\<newline>''))) = map Inr es
          \<and> map filename es = main_filenames (readlines_from [] (str ''# the tour\<newline>flex.py\<newline>''))
          \<and> map filename es = [str ''flex.py''])"
proof -
  have a: "list_all isspace (str ''\<newline>'')" by (simp add: isspace_def)
  have f: "main_filenames [str ''flex.py\<newline>''] = [str ''flex.py'']"
    by (simp add: main_filenames_def py_eval)
  from main_filenames_order[of "str ''\<newline>''" "[str ''flex.py\<newline>'']"] a
  have "main_filenames [str ''\<newline>'', str ''flex.py\<newline>''] = str '''' # main_filenames [str ''flex.py\<newline>'']"
    by blast
  then have 1: "main_filenames [str ''\<newline>'', str ''flex.py\<newline>''] = [str '''', str ''flex.py'']"
    by (simp only: f)
  have b: "blank_tour_files (str ''tour.conf'') = Some (str ''flex.py\<newline>\<newline>'')
      \<and> blank_tour_files (str '''') = None
      \<and> str '''' \<in> set (main_filenames (readlines_from [] (str ''flex.py\<newline>\<newline>'')))"
    by (simp add: blank_tour_files_def main_filenames_def py_eval)
  note fails = main_filenames_order
         [where fs = blank_tour_files and conf = "str ''flex.py\<newline>\<newline>''"
            and website_dir = "str ''/site''" and dumps = dumps_plain
            and path_exists = "\<lambda>_. False" and writable = "\<lambda>_. True",
          THEN conjunct2, THEN conjunct2, THEN conjunct2, THEN conjunct1, THEN mp]
  have 2: "\<exists>err. main (str ''/site'') dumps_plain blank_tour_files (\<lambda>_. False) (\<lambda>_. True) = Inl err"
    by (rule fails[OF b])
  have c: "tour_files (str ''tour.conf'') = Some (str ''# the tour\<newline>flex.py\<newline>'')"
    by (simp add: tour_files_def)
  note run = tour_run
  note completes = main_filenames_order
         [where fs = tour_files and conf = "str ''# the tour\<newline>flex.py\<newline>''"
            and website_dir = "str ''/site''" and dumps = dumps_plain
            and path_exists = "\<lambda>_. False" and writable = "\<lambda>_. True",
          THEN conjunct2, THEN conjunct2, THEN conjunct2, THEN conjunct2, THEN mp]
  from completes[OF conjI[OF c run]]
  obtain es where es:
    "map (load_example tour_files)
        (main_filenames (readlines_from [] (str ''# the tour\<newline>flex.py\<newline>''))) = map Inr es"
    "map filename es = main_filenames (readlines_from [] (str ''# the tour\<newline>flex.py\<newline>''))"
    by blast
  have fns: "main_filenames (readlines_from [] (str ''# the tour\<newline>flex.py\<newline>'')) = [str ''flex.py'']"
    by (simp add: main_filenames_def py_eval)
  from es(2) have m: "map filename es = [str ''flex.py'']" by (simp only: fns)
  have 3: "\<exists>es. map (load_example tour_files)
                (main_filenames (readlines_from [] (str ''# the tour\<newline>flex.py\<newline>''))) = map Inr es
          \<and> map filename es = main_filenames (readlines_from [] (str ''# the tour\<newline>flex.py\<newline>''))
          \<and> map filename es = [str ''flex.py'']"
    by (rule exI[of _ es]) (rule conjI[OF es(1) conjI[OF es(2) m]])
  note b1 = b[THEN conjunct1] and b2 = b[THEN conjunct2, THEN conjunct1]
    and b3 = b[THEN conjunct2, THEN conjunct2]
  show ?thesis
    by (rule conjI[OF a conjI[OF 1 conjI[OF b1 conjI[OF b2 conjI[OF b3 conjI[OF 2
          conjI[OF c conjI[OF run 3]]]]]]]])
qed

text \<open>
  The claim fails on a manifest with a blank line: the line stays, as the empty file
  name between \<open>a.py\<close> and \<open>b.py\<close>; the comment line is left out.
\<close>

theorem blank_manifest_line_is_kept:
  "main_filenames [str ''a.py\<newline>'', str ''\<newline>'', str ''# c.py\<newline>'', str ''b.py\<newline>'']
     = [str ''a.py'', str '''', str ''b.py'']"
  by (simp add: main_filenames_def py_eval)

section \<open>The keyword index\<close>























section \<open>The round trip of the code\<close>













end
